theory Spec2Isabelle
  imports Main "HOL-Library.Word"
begin

section \<open>Data model of the report-generation follower\<close>

text \<open>
  Byte strings (config digests, keys, addresses, signatures) are lists of bytes.
  \<open>types.OracleID\<close> is a Go \<open>int\<close>: a value received in a message may be negative or too
  large, which is why the code bounds-checks it. Epochs are \<open>uint32\<close>, rounds \<open>uint8\<close>.
\<close>

type_synonym bytes = "8 word list"
type_synonym OracleID = int

text \<open>
  Modelled from the spec: the package \<open>observation\<close> is not among the source files. An
  \<open>Observation\<close> is a signed integer (the value of the wrapped big integer), and
  \<open>Observation.Less\<close> is the strict order of these values. The missing-value sentinel
  \<open>Observation{}\<close> is \<open>None\<close> wherever the code can meet it.
\<close>

type_synonym Observation = int

definition Less :: "Observation \<Rightarrow> Observation \<Rightarrow> bool" where
  "Less o1 o2 = (o1 < o2)"

record SignedObservation =
  so_Observation :: Observation
  so_Signature :: bytes

record AttributedSignedObservation =
  aso_SignedObservation :: SignedObservation
  aso_Observer :: OracleID

record AttributedObservation =
  ao_Observation :: Observation
  ao_Observer :: OracleID

record ReportContext =
  rc_ConfigDigest :: bytes
  rc_Epoch :: "32 word"
  rc_Round :: "8 word"

record OracleIdentity =
  PeerID :: string
  OnChainSigningAddress :: bytes
  OffchainPublicKey :: bytes
  TransmitAddress :: bytes

text \<open>
  The fields of \<open>config.SharedConfig\<close> that the follower reads. \<open>F\<close> is a Go \<open>int\<close>,
  \<open>RMax\<close> a \<open>uint8\<close>, \<open>AlphaPPB\<close> a \<open>uint64\<close>, \<open>DeltaC\<close> a duration in nanoseconds.
\<close>

record SharedConfig =
  cfg_ConfigDigest :: bytes
  cfg_OracleIdentities :: "OracleIdentity list"
  cfg_F :: int
  cfg_RMax :: "8 word"
  cfg_AlphaPPB :: "64 word"
  cfg_DeltaC :: int

definition cfg_N :: "SharedConfig \<Rightarrow> nat" where
  "cfg_N c = length (cfg_OracleIdentities c)"

record AttestedReportOne =
  aro_AttributedObservations :: "AttributedObservation list"
  aro_Signature :: bytes

record AttestedReportMany =
  arm_AttributedObservations :: "AttributedObservation list"
  arm_Signatures :: "bytes list"

record followerState =
  fs_r :: "8 word"
  fs_sentEcho :: "AttestedReportMany option"
  fs_sentReport :: bool
  fs_completedRound :: bool
  fs_receivedEcho :: "bool list"

record reportGenerationState =
  rg_config :: SharedConfig
  rg_e :: "32 word"
  rg_l :: OracleID
  rg_id :: OracleID
  rg_followerState :: followerState

subsection \<open>Messages, events and effects\<close>

record MessageObserveReq =
  oreq_Epoch :: "32 word"
  oreq_Round :: "8 word"

record MessageReportReq =
  rreq_Epoch :: "32 word"
  rreq_Round :: "8 word"
  rreq_AttributedSignedObservations :: "AttributedSignedObservation list"

record MessageFinal =
  fin_Epoch :: "32 word"
  fin_Round :: "8 word"
  fin_Report :: AttestedReportMany

text \<open>\<open>MessageFinalEcho\<close> embeds a \<open>MessageFinal\<close>, so it has the same fields.\<close>

type_synonym MessageFinalEcho = MessageFinal

datatype message =
  MsgObserve "32 word" "8 word" SignedObservation
| MsgReport "32 word" "8 word" AttestedReportOne
| MsgFinalEcho MessageFinalEcho

datatype pacemaker_event = EventChangeLeader | EventProgress

datatype transmission_event = EventTransmit "32 word" "8 word" AttestedReportMany

datatype level = Debug | Info | Warn | Error

text \<open>
  What a handler does to the outside, in the order it does it. \<open>ToPacemaker\<close> and
  \<open>ToTransmission\<close> record an event that was delivered on the channel.
\<close>

datatype action =
  Log level string
| ToPacemaker pacemaker_event
| ToTransmission transmission_event
| SendTo message OracleID
| Broadcast message
| RoundStarted bytes "32 word" "8 word" OracleID
| DataSourceObserve
| QueryLatestTransmissionDetails

text \<open>
  Every outbound event is sent by
  \<^verbatim>\<open>select { case ch <- ev: case <-repgen.ctx.Done(): }\<close>
  so the statement ends either with the event delivered or, when the context of the
  follower has been cancelled, without it. Which branch runs is decided outside the
  handler.
\<close>

datatype select_outcome = Delivered | CtxDone

datatype datasource_outcome =
  TimedOut
| ObserveFailed string
| Observed int

text \<open>
  The result of \<open>ContractTransmitter.LatestTransmissionDetails\<close>: an error, or the
  contract's config digest, epoch, round, latest answer and its timestamp (nanoseconds).
\<close>

record TransmissionDetails =
  td_configDigest :: bytes
  td_epoch :: "32 word"
  td_round :: "8 word"
  td_latestAnswer :: int
  td_latestTimestamp :: int

text \<open>
  The collaborators of the follower and what they answer during one handler call. The
  signature codecs, \<open>observation.MakeObservation\<close> and \<open>Observation.Deviates\<close> are not
  among the source files: they are parameters here. An \<open>error\<close> result is \<open>Some msg\<close>,
  \<open>nil\<close> is \<open>None\<close>.
\<close>

record world =
  SignedObservation_Verify :: "SignedObservation \<Rightarrow> ReportContext \<Rightarrow> bytes \<Rightarrow> string option"
  MakeSignedObservation :: "Observation \<Rightarrow> ReportContext \<Rightarrow> string + SignedObservation"
  PublicKeyOffChain :: bytes
  MakeAttestedReportOne :: "AttributedObservation list \<Rightarrow> ReportContext \<Rightarrow> string + AttestedReportOne"
  AttestedReportOne_Verify :: "AttestedReportOne \<Rightarrow> ReportContext \<Rightarrow> bytes \<Rightarrow> string option"
  PublicKeyAddressOnChain :: bytes
  VerifySignatures :: "AttestedReportMany \<Rightarrow> ReportContext \<Rightarrow> (bytes \<rightharpoonup> OracleID) \<Rightarrow> string option"
  MakeObservation :: "int \<Rightarrow> string + Observation"
  Deviates :: "Observation \<Rightarrow> Observation \<Rightarrow> 64 word \<Rightarrow> bool"
  datasource :: datasource_outcome
  LatestTransmissionDetails :: "string + TransmissionDetails"
  now :: int
  select_pacemaker :: select_outcome
  select_transmission :: select_outcome

definition followerReportContext :: "reportGenerationState \<Rightarrow> ReportContext" where
  "followerReportContext repgen =
     \<lparr>rc_ConfigDigest = cfg_ConfigDigest (rg_config repgen),
      rc_Epoch = rg_e repgen,
      rc_Round = fs_r (rg_followerState repgen)\<rparr>"

section \<open>verifyReportReq\<close>

text \<open>
  Go's \<open>sort.SliceIsSorted\<close>: \<^verbatim>\<open>for i := n - 1; i > 0; i-- { if less(i, i-1) { return false } }\<close>.
\<close>

fun isSorted_from :: "('a \<Rightarrow> 'a \<Rightarrow> bool) \<Rightarrow> 'a list \<Rightarrow> nat \<Rightarrow> bool" where
  "isSorted_from lt xs 0 = True"
| "isSorted_from lt xs (Suc i) =
     (if lt (xs ! Suc i) (xs ! i) then False else isSorted_from lt xs i)"

definition SliceIsSorted :: "('a \<Rightarrow> 'a \<Rightarrow> bool) \<Rightarrow> 'a list \<Rightarrow> bool" where
  "SliceIsSorted lt xs = isSorted_from lt xs (length xs - 1)"

text \<open>Go's \<open>int\<close> arithmetic wraps around in 64 bits.\<close>

definition go_int :: "int \<Rightarrow> int" where
  "go_int x = (x + 2 ^ 63) mod 2 ^ 64 - 2 ^ 63"

datatype verify_error =
  NotSorted
| OracleIDOutOfBounds OracleID nat
| DuplicateObservation OracleID
| InvalidSignedObservation string
| NotEnoughObservations nat int

text \<open>
  The loop over the observations of a report request, with the map \<open>counted\<close> it fills.
  It stops at the first observation that fails a check.
\<close>

fun check_observations ::
  "world \<Rightarrow> reportGenerationState \<Rightarrow> AttributedSignedObservation list \<Rightarrow>
   (OracleID \<rightharpoonup> bool) \<Rightarrow> verify_error + (OracleID \<rightharpoonup> bool)" where
  "check_observations w repgen [] counted = Inr counted"
| "check_observations w repgen (obs # rest) counted =
     (let numOracles = length (cfg_OracleIdentities (rg_config repgen)) in
      if aso_Observer obs < 0 \<or> int numOracles \<le> aso_Observer obs
      then Inl (OracleIDOutOfBounds (aso_Observer obs) numOracles)
      else if counted (aso_Observer obs) = Some True
      then Inl (DuplicateObservation (aso_Observer obs))
      else
        let counted' = counted(aso_Observer obs \<mapsto> True);
            observerOffchainPublicKey =
              OffchainPublicKey (cfg_OracleIdentities (rg_config repgen) ! nat (aso_Observer obs))
        in case SignedObservation_Verify w (aso_SignedObservation obs)
                  (followerReportContext repgen) observerOffchainPublicKey of
             Some err \<Rightarrow> Inl (InvalidSignedObservation err)
           | None \<Rightarrow> check_observations w repgen rest counted')"

definition verifyReportReq ::
  "world \<Rightarrow> reportGenerationState \<Rightarrow> MessageReportReq \<Rightarrow> verify_error option" where
  "verifyReportReq w repgen msg =
     (if \<not> SliceIsSorted
             (\<lambda>a b. Less (so_Observation (aso_SignedObservation a))
                         (so_Observation (aso_SignedObservation b)))
             (rreq_AttributedSignedObservations msg)
      then Some NotSorted
      else
        case check_observations w repgen (rreq_AttributedSignedObservations msg) Map.empty of
          Inl err \<Rightarrow> Some err
        | Inr counted \<Rightarrow>
            (let bound = go_int (2 * cfg_F (rg_config repgen)) in
             if int (card (dom counted)) \<le> bound
             then Some (NotEnoughObservations (card (dom counted)) bound)
             else None))"

text \<open>What the claim calls an accepted request, in the spec's words.\<close>

definition observations_sorted :: "AttributedSignedObservation list \<Rightarrow> bool" where
  "observations_sorted obs = sorted (map (\<lambda>a. so_Observation (aso_SignedObservation a)) obs)"

definition observers_in_range :: "reportGenerationState \<Rightarrow> AttributedSignedObservation list \<Rightarrow> bool" where
  "observers_in_range repgen obs =
     (\<forall>a \<in> set obs. 0 \<le> aso_Observer a \<and> aso_Observer a < int (cfg_N (rg_config repgen)))"

definition observers_distinct :: "AttributedSignedObservation list \<Rightarrow> bool" where
  "observers_distinct obs = distinct (map aso_Observer obs)"

definition signatures_verify ::
  "world \<Rightarrow> reportGenerationState \<Rightarrow> AttributedSignedObservation list \<Rightarrow> bool" where
  "signatures_verify w repgen obs =
     (\<forall>a \<in> set obs.
        SignedObservation_Verify w (aso_SignedObservation a)
          \<lparr>rc_ConfigDigest = cfg_ConfigDigest (rg_config repgen), rc_Epoch = rg_e repgen,
           rc_Round = fs_r (rg_followerState repgen)\<rparr>
          (OffchainPublicKey (cfg_OracleIdentities (rg_config repgen) ! nat (aso_Observer a)))
        = None)"

definition distinct_observers :: "AttributedSignedObservation list \<Rightarrow> nat" where
  "distinct_observers obs = card (aso_Observer ` set obs)"

section \<open>The follower's handlers\<close>

text \<open>A Go panic: an index out of range, or a nil pointer dereference.\<close>

datatype panic = IndexOutOfRange int nat | NilDereference

definition select_send :: "select_outcome \<Rightarrow> action \<Rightarrow> action list" where
  "select_send outcome ev = (case outcome of Delivered \<Rightarrow> [ev] | CtxDone \<Rightarrow> [])"

definition completeRound :: "world \<Rightarrow> reportGenerationState \<Rightarrow> reportGenerationState \<times> action list" where
  "completeRound w repgen =
     (repgen\<lparr>rg_followerState := (rg_followerState repgen)\<lparr>fs_completedRound := True\<rparr>\<rparr>,
      Log Debug ''ReportGeneration: completed round''
        # select_send (select_pacemaker w) (ToPacemaker EventProgress))"

text \<open>
  \<open>observeValue\<close>: the data source is asked within \<open>DataSourceTimeout\<close>; a timeout, an
  error of the data source or of \<open>MakeObservation\<close> gives the missing value.
\<close>

definition observeValue :: "world \<Rightarrow> Observation option \<times> action list" where
  "observeValue w =
     (case datasource w of
        TimedOut \<Rightarrow> (None, [DataSourceObserve, Log Error ''DataSource timed out''])
      | ObserveFailed err \<Rightarrow> (None, [DataSourceObserve, Log Error ''DataSource errored''])
      | Observed rawValue \<Rightarrow>
          (case MakeObservation w rawValue of
             Inl err \<Rightarrow> (None, [DataSourceObserve, Log Error ''DataSource errored''])
           | Inr v \<Rightarrow> (Some v, [DataSourceObserve])))"

definition messageObserveReq ::
  "world \<Rightarrow> reportGenerationState \<Rightarrow> MessageObserveReq \<Rightarrow> OracleID \<Rightarrow>
   reportGenerationState \<times> action list" where
  "messageObserveReq w repgen msg sender =
     (if oreq_Epoch msg \<noteq> rg_e repgen
      then (repgen, [Log Debug ''messageObserveReq: dropping MessageObserveReq from wrong epoch''])
      else if sender \<noteq> rg_l repgen
      then (repgen, [Log Warn ''messageObserveReq: dropping MessageObserveReq from non-leader''])
      else if oreq_Round msg \<le> fs_r (rg_followerState repgen)
      then (repgen, [Log Debug ''messageObserveReq: dropping MessageObserveReq from earlier round''])
      else if uint (cfg_RMax (rg_config repgen)) + 1 < uint (oreq_Round msg)
      then (repgen, [Log Warn ''messageObserveReq: dropping MessageObserveReq from out of bounds round''])
      else
        let repgen1 = repgen\<lparr>rg_followerState := (rg_followerState repgen)\<lparr>fs_r := oreq_Round msg\<rparr>\<rparr>
        in if fs_r (rg_followerState repgen1) > cfg_RMax (rg_config repgen1)
           then (repgen1,
                 Log Debug ''messageReportReq: leader sent MessageObserveReq past its expiration round. Time to change leader''
                   # select_send (select_pacemaker w) (ToPacemaker EventChangeLeader))
           else
             let repgen2 = repgen1\<lparr>rg_followerState := (rg_followerState repgen1)
                             \<lparr>fs_sentEcho := None, fs_sentReport := False, fs_completedRound := False,
                              fs_receivedEcho := replicate (cfg_N (rg_config repgen1)) False\<rparr>\<rparr>;
                 started = RoundStarted (cfg_ConfigDigest (rg_config repgen2)) (rg_e repgen2)
                             (fs_r (rg_followerState repgen2)) (rg_l repgen2);
                 (val, observed) = observeValue w
             in case val of
                  None \<Rightarrow> (repgen2, started # observed)
                | Some v \<Rightarrow>
                    (case MakeSignedObservation w v (followerReportContext repgen2) of
                       Inl err \<Rightarrow>
                         (repgen2, started # observed @
                            [Log Error ''messageObserveReq: could not make SignedObservation observation''])
                     | Inr so \<Rightarrow>
                         (case SignedObservation_Verify w so (followerReportContext repgen2)
                                 (PublicKeyOffChain w) of
                            Some err \<Rightarrow>
                              (repgen2, started # observed @
                                 [Log Error ''MakeSignedObservation produced invalid signature:''])
                          | None \<Rightarrow>
                              (repgen2, started # observed @
                                 [Log Debug ''sent observation to leader'',
                                  SendTo (MsgObserve (rg_e repgen2) (fs_r (rg_followerState repgen2)) so)
                                    (rg_l repgen2)]))))"

text \<open>
  \<open>shouldReport\<close>. \<open>time.Time\<close> values are nanosecond counts, \<open>Add\<close> is addition and
  \<open>Before\<close> is \<open><\<close>. Reading \<open>observations[len(observations)/2]\<close> of an empty slice
  panics.
\<close>

definition shouldReport ::
  "world \<Rightarrow> reportGenerationState \<Rightarrow> AttributedSignedObservation list \<Rightarrow>
   panic + (bool \<times> action list)" where
  "shouldReport w repgen observations =
     (case LatestTransmissionDetails w of
        Inl err \<Rightarrow>
          Inr (True, [QueryLatestTransmissionDetails,
                      Log Error ''shouldReport: Error during LatestTransmissionDetails''])
      | Inr td \<Rightarrow>
          (case MakeObservation w (td_latestAnswer td) of
             Inl err \<Rightarrow>
               Inr (False, [QueryLatestTransmissionDetails,
                            Log Error ''shouldReport: Error during observation.NewObservation''])
           | Inr answer \<Rightarrow>
               (let initialRound = (td_configDigest td = cfg_ConfigDigest (rg_config repgen)
                                    \<and> td_epoch td = 0 \<and> td_round td = 0)
                in if length observations \<le> length observations div 2
                   then Inl (IndexOutOfRange (int (length observations div 2)) (length observations))
                   else
                     let deviation =
                           Deviates w
                             (so_Observation (aso_SignedObservation
                                (observations ! (length observations div 2))))
                             answer (cfg_AlphaPPB (rg_config repgen));
                         deltaCTimeout =
                           (td_latestTimestamp td + cfg_DeltaC (rg_config repgen) < now w);
                         result = (initialRound \<or> deviation \<or> deltaCTimeout)
                     in Inr (result, [QueryLatestTransmissionDetails,
                                      Log Info ''shouldReport: returning result'']))))"

definition messageReportReq ::
  "world \<Rightarrow> reportGenerationState \<Rightarrow> MessageReportReq \<Rightarrow> OracleID \<Rightarrow>
   panic + (reportGenerationState \<times> action list)" where
  "messageReportReq w repgen msg sender =
     (if rg_e repgen \<noteq> rreq_Epoch msg
      then Inr (repgen, [Log Debug ''messageReportReq from wrong epoch''])
      else if sender \<noteq> rg_l repgen
      then Inr (repgen, [Log Warn ''messageReportReq from non-leader''])
      else if fs_r (rg_followerState repgen) \<noteq> rreq_Round msg
      then Inr (repgen, [Log Debug ''messageReportReq from wrong round''])
      else if fs_sentReport (rg_followerState repgen)
      then Inr (repgen, [Log Warn ''messageReportReq after report sent''])
      else if fs_completedRound (rg_followerState repgen)
      then Inr (repgen, [Log Warn ''messageReportReq after round completed''])
      else
        case verifyReportReq w repgen msg of
          Some err \<Rightarrow>
            Inr (repgen, [Log Error ''messageReportReq: could not validate report sent by leader''])
        | None \<Rightarrow>
            (case shouldReport w repgen (rreq_AttributedSignedObservations msg) of
               Inl p \<Rightarrow> Inl p
             | Inr (True, asked) \<Rightarrow>
                 (let attributedValues =
                        map (\<lambda>aso. \<lparr>ao_Observation = so_Observation (aso_SignedObservation aso),
                                    ao_Observer = aso_Observer aso\<rparr>)
                            (rreq_AttributedSignedObservations msg)
                  in case MakeAttestedReportOne w attributedValues (followerReportContext repgen) of
                       Inl err \<Rightarrow>
                         Inr (repgen, asked @ [Log Error ''messageReportReq: failed to sign report''])
                     | Inr report \<Rightarrow>
                         (case AttestedReportOne_Verify w report (followerReportContext repgen)
                                 (PublicKeyAddressOnChain w) of
                            Some err \<Rightarrow>
                              Inr (repgen, asked @ [Log Error ''could not verify my own signature''])
                          | None \<Rightarrow>
                              Inr (repgen\<lparr>rg_followerState :=
                                            (rg_followerState repgen)\<lparr>fs_sentReport := True\<rparr>\<rparr>,
                                   asked @ [SendTo (MsgReport (rg_e repgen)
                                                      (fs_r (rg_followerState repgen)) report)
                                              (rg_l repgen)])))
             | Inr (False, asked) \<Rightarrow>
                 (let (repgen', completed) = completeRound w repgen
                  in Inr (repgen', asked @ completed))))"

text \<open>
  \<open>verifyAttestedReport\<close>: the map from on-chain signing addresses to oracle ids is
  filled in the order of the identities, a later identity overwriting an earlier one with
  the same address.
\<close>

definition onchain_keys :: "SharedConfig \<Rightarrow> (bytes \<rightharpoonup> OracleID)" where
  "onchain_keys c =
     fold (\<lambda>(oid, ident) keys. keys(OnChainSigningAddress ident \<mapsto> int oid))
          (enumerate 0 (cfg_OracleIdentities c)) Map.empty"

definition verifyAttestedReport ::
  "world \<Rightarrow> reportGenerationState \<Rightarrow> AttestedReportMany \<Rightarrow> OracleID \<Rightarrow> bool \<times> action list" where
  "verifyAttestedReport w repgen report sender =
     (if int (length (arm_Signatures report)) \<le> cfg_F (rg_config repgen)
      then (False, [Log Warn ''verifyAttestedReport: dropping final report because it has too few signatures''])
      else
        case VerifySignatures w report (followerReportContext repgen)
               (onchain_keys (rg_config repgen)) of
          Some err \<Rightarrow> (False, [Log Error ''could not validate signatures on final report''])
        | None \<Rightarrow> (True, []))"

text \<open>The counting loop of \<open>messageFinalEcho\<close> over \<open>receivedEcho\<close>.\<close>

definition count_receivedEcho :: "bool list \<Rightarrow> int" where
  "count_receivedEcho echoes = fold (\<lambda>receivedEcho count. if receivedEcho then count + 1 else count) echoes 0"

definition messageFinalEcho ::
  "world \<Rightarrow> reportGenerationState \<Rightarrow> MessageFinalEcho \<Rightarrow> OracleID \<Rightarrow>
   panic + (reportGenerationState \<times> action list)" where
  "messageFinalEcho w repgen msg sender =
     (let fs = rg_followerState repgen in
      if fin_Epoch msg \<noteq> rg_e repgen
      then Inr (repgen, [Log Debug ''wrong epoch from MessageFinalEcho''])
      else if fin_Round msg \<noteq> fs_r fs
      then Inr (repgen, [Log Debug ''wrong round from MessageFinalEcho''])
      else if sender < 0 \<or> int (length (fs_receivedEcho fs)) \<le> sender
      then Inl (IndexOutOfRange sender (length (fs_receivedEcho fs)))
      else if fs_receivedEcho fs ! nat sender
      then Inr (repgen, [Log Warn ''extra MessageFinalEcho received''])
      else if fs_completedRound fs
      then Inr (repgen, [Log Debug ''received final echo after round completion''])
      else
        case verifyAttestedReport w repgen (fin_Report msg) sender of
          (False, logged) \<Rightarrow> Inr (repgen, logged)
        | (True, logged) \<Rightarrow>
            (let fs1 = fs\<lparr>fs_receivedEcho := (fs_receivedEcho fs)[nat sender := True]\<rparr>;
                 (fs2, echoed) =
                   (if fs_sentEcho fs1 = None
                    then (fs1\<lparr>fs_sentEcho := Some (fin_Report msg)\<rparr>, [Broadcast (MsgFinalEcho msg)])
                    else (fs1, []));
                 repgen2 = repgen\<lparr>rg_followerState := fs2\<rparr>;
                 count = count_receivedEcho (fs_receivedEcho fs2)
             in if cfg_F (rg_config repgen2) < count
                then (case fs_sentEcho fs2 of
                        None \<Rightarrow> Inl NilDereference
                      | Some report \<Rightarrow>
                          (let (repgen3, completed) = completeRound w repgen2
                           in Inr (repgen3,
                                   logged @ echoed
                                   @ select_send (select_transmission w)
                                       (ToTransmission (EventTransmit (rg_e repgen2) (fs_r fs2) report))
                                   @ completed)))
                else Inr (repgen2, logged @ echoed)))"

section \<open>The guards of the handlers, in the words of the specification\<close>

text \<open>
  The four guards of \<open>messageObserveReq\<close>, and the log line of the first one that fails
  when they are checked in the order epoch, leader, round advances, round within
  \<open>RMax + 1\<close>.
\<close>

definition observeReq_guards :: "reportGenerationState \<Rightarrow> MessageObserveReq \<Rightarrow> OracleID \<Rightarrow> bool" where
  "observeReq_guards repgen msg sender \<longleftrightarrow>
     oreq_Epoch msg = rg_e repgen \<and>
     sender = rg_l repgen \<and>
     fs_r (rg_followerState repgen) < oreq_Round msg \<and>
     uint (oreq_Round msg) \<le> uint (cfg_RMax (rg_config repgen)) + 1"

definition observeReq_drop_log :: "reportGenerationState \<Rightarrow> MessageObserveReq \<Rightarrow> OracleID \<Rightarrow> action" where
  "observeReq_drop_log repgen msg sender =
     (if oreq_Epoch msg \<noteq> rg_e repgen
      then Log Debug ''messageObserveReq: dropping MessageObserveReq from wrong epoch''
      else if sender \<noteq> rg_l repgen
      then Log Warn ''messageObserveReq: dropping MessageObserveReq from non-leader''
      else if \<not> fs_r (rg_followerState repgen) < oreq_Round msg
      then Log Debug ''messageObserveReq: dropping MessageObserveReq from earlier round''
      else Log Warn ''messageObserveReq: dropping MessageObserveReq from out of bounds round'')"

text \<open>
  The guards of \<open>messageFinalEcho\<close> (with a sender that indexes \<open>receivedEcho\<close>), the
  number of true entries of \<open>receivedEcho\<close> once the sender's echo is recorded, and the
  report held in \<open>sentEcho\<close> from then on.
\<close>

definition finalEcho_guards :: "world \<Rightarrow> reportGenerationState \<Rightarrow> MessageFinalEcho \<Rightarrow> OracleID \<Rightarrow> bool" where
  "finalEcho_guards w repgen msg sender \<longleftrightarrow>
     fin_Epoch msg = rg_e repgen \<and>
     fin_Round msg = fs_r (rg_followerState repgen) \<and>
     0 \<le> sender \<and> sender < int (length (fs_receivedEcho (rg_followerState repgen))) \<and>
     \<not> fs_receivedEcho (rg_followerState repgen) ! nat sender \<and>
     \<not> fs_completedRound (rg_followerState repgen) \<and>
     fst (verifyAttestedReport w repgen (fin_Report msg) sender)"

definition echoes_after :: "reportGenerationState \<Rightarrow> OracleID \<Rightarrow> int" where
  "echoes_after repgen sender =
     int (length (filter (\<lambda>b. b) ((fs_receivedEcho (rg_followerState repgen))[nat sender := True])))"

definition echo_after :: "reportGenerationState \<Rightarrow> MessageFinalEcho \<Rightarrow> AttestedReportMany" where
  "echo_after repgen msg =
     (case fs_sentEcho (rg_followerState repgen) of None \<Rightarrow> fin_Report msg | Some report \<Rightarrow> report)"

text \<open>The three reasons of \<open>shouldReport\<close>, and reading its result.\<close>

definition initial_round :: "reportGenerationState \<Rightarrow> TransmissionDetails \<Rightarrow> bool" where
  "initial_round repgen td \<longleftrightarrow>
     td_configDigest td = cfg_ConfigDigest (rg_config repgen) \<and> td_epoch td = 0 \<and> td_round td = 0"

definition median_deviates ::
  "world \<Rightarrow> reportGenerationState \<Rightarrow> AttributedSignedObservation list \<Rightarrow> Observation \<Rightarrow> bool" where
  "median_deviates w repgen observations answer \<longleftrightarrow>
     Deviates w (so_Observation (aso_SignedObservation (observations ! (length observations div 2))))
       answer (cfg_AlphaPPB (rg_config repgen))"

definition heartbeat_due :: "world \<Rightarrow> reportGenerationState \<Rightarrow> TransmissionDetails \<Rightarrow> bool" where
  "heartbeat_due w repgen td \<longleftrightarrow> td_latestTimestamp td + cfg_DeltaC (rg_config repgen) < now w"

definition reports :: "panic + (bool \<times> action list) \<Rightarrow> bool \<Rightarrow> bool" where
  "reports res b = (case res of Inl p \<Rightarrow> False | Inr (result, acts) \<Rightarrow> result = b)"

text \<open>A handler that only wrote log lines sent no message and emitted no event.\<close>

definition only_logs :: "action list \<Rightarrow> bool" where
  "only_logs acts = list_all (\<lambda>a. case a of Log lvl txt \<Rightarrow> True | _ \<Rightarrow> False) acts"

section \<open>The managed oracle supervisor\<close>

text \<open>
  \<open>types.ContractConfig\<close> is declared outside the source files; the supervisor only
  passes it on, so its digest and encoded payload stand for it. A network endpoint is
  known by the number of the object \<open>MakeEndpoint\<close> returned.
\<close>

record ContractConfig =
  cc_ConfigDigest :: bytes
  cc_Encoded :: bytes

type_synonym endpoint = nat

definition computeTokenBucketSize :: int where
  "computeTokenBucketSize = (2 + 6) * 2"

text \<open>
  What \<open>configChanged\<close> does to the outside. \<open>MakeEndpoint\<close> carries the digest, the
  peer ids, the bootstrappers, \<open>F\<close> and the bucket size; the refill rate is a \<open>float64\<close>
  and is left out.
\<close>

datatype mo_action =
  MoLog level string
| CancelOracle
| WaitOracle
| CloseEndpoint endpoint
| MakeEndpoint bytes "string list" "string list" int int
| StartEndpoint endpoint
| RunOracle SharedConfig OracleID endpoint
| WriteConfig ContractConfig

text \<open>
  The collaborators of the supervisor during one call of \<open>configChanged\<close>.
  \<open>SharedConfigFromContractConfig\<close> returns a config, an oracle id and an error, and the
  code stores the config before it looks at the error.
\<close>

record mo_world =
  SharedConfigFromContractConfig :: "ContractConfig \<Rightarrow> SharedConfig \<times> OracleID \<times> string option"
  MakeEndpoint_result :: "string + endpoint"
  Start_result :: "string option"
  Close_result :: "string option"
  WriteConfig_result :: "string option"

text \<open>
  The fields of \<open>managedOracleState\<close> that \<open>configChanged\<close> touches. \<open>mo_oracleCancel\<close>
  is \<open>True\<close> when the cancel function is not nil. \<open>mo_oracles\<close> are the protocol
  instances running under \<open>oracleSubprocesses\<close>, \<open>mo_endpoints\<close> the endpoints that were
  started and not closed since.
\<close>

record managedOracleState =
  mo_bootstrappers :: "string list"
  mo_config :: SharedConfig
  mo_netEndpoint :: "endpoint option"
  mo_oracleCancel :: bool
  mo_oracles :: "(SharedConfig \<times> OracleID \<times> endpoint) list"
  mo_endpoints :: "endpoint list"

text \<open>
  Modelled from the spec: \<open>protocol.RunOracle\<close> is not among the source files; it exits
  once its context is cancelled, so that \<open>oracleSubprocesses.Wait()\<close> returns after
  \<open>oracleCancel()\<close>.
\<close>

definition closeOracle ::
  "mo_world \<Rightarrow> managedOracleState \<Rightarrow> panic + (managedOracleState \<times> mo_action list)" where
  "closeOracle w mo =
     (if mo_oracleCancel mo
      then (case mo_netEndpoint mo of
              None \<Rightarrow> Inl NilDereference
            | Some ep \<Rightarrow>
                Inr (mo\<lparr>mo_oracles := [], mo_endpoints := removeAll ep (mo_endpoints mo),
                        mo_oracleCancel := False, mo_netEndpoint := None\<rparr>,
                     [CancelOracle, WaitOracle, CloseEndpoint ep]
                     @ (case Close_result w of
                          Some err \<Rightarrow> [MoLog Error ''ManagedOracle: error while closing BinaryNetworkEndpoint'']
                        | None \<Rightarrow> [])))
      else Inr (mo, []))"

definition configChanged ::
  "mo_world \<Rightarrow> managedOracleState \<Rightarrow> ContractConfig \<Rightarrow>
   panic + (managedOracleState \<times> mo_action list)" where
  "configChanged w mo contractConfig =
     (case closeOracle w mo of
        Inl p \<Rightarrow> Inl p
      | Inr (mo1, closed) \<Rightarrow>
          (let (cfg, oid, err) = SharedConfigFromContractConfig w contractConfig;
               mo2 = mo1\<lparr>mo_config := cfg\<rparr>
           in case err of
                Some e \<Rightarrow> Inr (mo2, closed @ [MoLog Error ''ManagedOracle: error while updating config''])
              | None \<Rightarrow>
                  (let peerIDs = map PeerID (cfg_OracleIdentities (mo_config mo2));
                       made = MakeEndpoint (cfg_ConfigDigest (mo_config mo2)) peerIDs
                                (mo_bootstrappers mo2) (cfg_F (mo_config mo2)) computeTokenBucketSize
                   in case MakeEndpoint_result w of
                        Inl e \<Rightarrow>
                          Inr (mo2, closed @ [made, MoLog Error ''ManagedOracle: error during MakeEndpoint''])
                      | Inr netEndpoint \<Rightarrow>
                          (case Start_result w of
                             Some e \<Rightarrow>
                               Inr (mo2, closed @ [made, StartEndpoint netEndpoint,
                                      MoLog Error ''ManagedOracle: error during netEndpoint.Start()''])
                           | None \<Rightarrow>
                               (let mo3 = mo2\<lparr>mo_netEndpoint := Some netEndpoint,
                                              mo_oracleCancel := True,
                                              mo_oracles := (mo_config mo2, oid, netEndpoint) # mo_oracles mo2,
                                              mo_endpoints := netEndpoint # mo_endpoints mo2\<rparr>;
                                    effects = closed @ [made, StartEndpoint netEndpoint,
                                             RunOracle (mo_config mo2) oid netEndpoint,
                                             WriteConfig contractConfig]
                                in case WriteConfig_result w of
                                     Some e \<Rightarrow>
                                       Inr (mo3, effects @ [MoLog Error ''ManagedOracle: error writing new config to database''])
                                   | None \<Rightarrow> Inr (mo3, effects))))))"

section \<open>The bootstrap node\<close>

text \<open>
  \<open>started\<close> is a \<open>semaphore.Weighted\<close> of size 1, kept as the weight held.
  \<open>subprocesses\<close> holds, for each goroutine it tracks, the context that goroutine runs
  under; \<open>cancel\<close> is the context whose cancel function is stored, if any.
\<close>

record 'a BootstrapNode =
  bootstrapArgs :: 'a
  started :: nat
  subprocesses :: "nat list"
  cancel :: "nat option"

text \<open>The node together with the contexts created so far and those cancelled.\<close>

record 'a bootstrap_state =
  node :: "'a BootstrapNode"
  contexts :: nat
  cancelled :: "nat list"

datatype call = Start | Close

datatype outcome = Returned "string option" | Panicked string | Blocked

text \<open>\<open>SanityCheckLocalConfig\<close> is not among the source files: a parameter.\<close>

definition NewBootstrapNode :: "('a \<Rightarrow> string option) \<Rightarrow> 'a \<Rightarrow> string + 'a BootstrapNode" where
  "NewBootstrapNode SanityCheckLocalConfig args =
     (case SanityCheckLocalConfig args of
        Some err \<Rightarrow> Inl (''bad local config while creating bootstrap node: '' @ err)
      | None \<Rightarrow> Inr \<lparr>bootstrapArgs = args, started = 0, subprocesses = [], cancel = None\<rparr>)"

definition fresh_state :: "'a BootstrapNode \<Rightarrow> 'a bootstrap_state" where
  "fresh_state b = \<lparr>node = b, contexts = 0, cancelled = []\<rparr>"

text \<open>\<open>TryAcquire(1)\<close> on the semaphore of size 1.\<close>

definition TryAcquire :: "'a BootstrapNode \<Rightarrow> bool \<times> 'a BootstrapNode" where
  "TryAcquire b = (if started b + 1 \<le> 1 then (True, b\<lparr>started := started b + 1\<rparr>) else (False, b))"

definition bootstrap_Start :: "'a bootstrap_state \<Rightarrow> outcome \<times> 'a bootstrap_state" where
  "bootstrap_Start s =
     (case TryAcquire (node s) of
        (False, b) \<Rightarrow> (Panicked ''can only start a BootstrapNode once'', s\<lparr>node := b\<rparr>)
      | (True, b) \<Rightarrow>
          (let ctx = contexts s
           in (Returned None,
               s\<lparr>node := b\<lparr>cancel := Some ctx, subprocesses := ctx # subprocesses b\<rparr>,
                 contexts := contexts s + 1\<rparr>)))"

subsection \<open>The goroutine started by Start\<close>

text \<open>
  The goroutine runs \<open>managed.RunManagedBootstrapNode\<close>, that is
  \<open>managedBootstrapNodeState.run\<close>. Its loop
  \<^verbatim>\<open>for { select { case cc := <-chNewConfig: mb.configChanged(cc)
                 case <-mb.ctx.Done(): mb.closeBootstrapper(); subprocesses.Wait(); return } }\<close>
  returns only through the second case. So the goroutine returns after its context is
  cancelled, and then only if
  \<^item> whatever it is doing when the cancellation arrives (restoring the config from the
    database, a \<open>configChanged\<close> with its calls of \<open>MakeBootstrapper\<close>,
    \<open>bootstrapper.Start\<close> and \<open>database.WriteConfig\<close>) returns, so that the
    \<open>select\<close> is reached;
  \<^item> \<open>bootstrapper.Close()\<close> returns, when there is a bootstrapper;
  \<^item> the goroutines under its own \<open>subprocesses\<close> (\<open>TrackConfig\<close>, the database
    read of \<open>BlockForAtMost\<close>) return, so that its \<open>subprocesses.Wait()\<close> returns.
  \<open>types.Bootstrapper\<close>, \<open>types.Database\<close>, \<open>TrackConfig\<close> and the package
  \<open>subprocesses\<close> are not among the source files: whether their calls return is given
  from outside. A call that never returns is \<open>None\<close>.
\<close>

record bootstrap_world =
  config_change_returns :: bool
  bootstrapper_running :: bool
  bootstrapper_Close :: "string option option"
  tracker_exits :: bool

definition closeBootstrapper :: "bootstrap_world \<Rightarrow> (level \<times> string) list option" where
  "closeBootstrapper w =
     (if bootstrapper_running w
      then (case bootstrapper_Close w of
              None \<Rightarrow> None
            | Some None \<Rightarrow> Some []
            | Some (Some err) \<Rightarrow>
                Some [(Error, ''ManagedBootstrapNode: error while closing bootstrapper'')])
      else Some [])"

text \<open>What \<open>run\<close> logs from the cancellation of its context to its return, if it returns.\<close>

definition run_winds_down :: "bootstrap_world \<Rightarrow> (level \<times> string) list option" where
  "run_winds_down w =
     (if \<not> config_change_returns w then None
      else case closeBootstrapper w of
             None \<Rightarrow> None
           | Some closed \<Rightarrow>
               if tracker_exits w
               then Some ((Debug, ''ManagedBootstrapNode: winding down '') # closed
                          @ [(Debug, ''ManagedBootstrapNode: exiting'')])
               else None)"

text \<open>
  A tracked goroutine has returned when its context is cancelled and \<open>run\<close> winds down.
\<close>

definition goroutine_returned :: "bootstrap_world \<Rightarrow> 'a bootstrap_state \<Rightarrow> nat \<Rightarrow> bool" where
  "goroutine_returned w s ctx \<longleftrightarrow> ctx \<in> set (cancelled s) \<and> run_winds_down w \<noteq> None"

text \<open>
  \<open>Close\<close>: the stored cancel function is called if there is one, then
  \<open>b.subprocesses.Wait()\<close> returns once every tracked goroutine has returned, and blocks
  as long as one has not.
\<close>

definition bootstrap_Close ::
  "bootstrap_world \<Rightarrow> 'a bootstrap_state \<Rightarrow> outcome \<times> 'a bootstrap_state" where
  "bootstrap_Close w s =
     (let s1 = (case cancel (node s) of
                  Some ctx \<Rightarrow> s\<lparr>cancelled := ctx # cancelled s\<rparr>
                | None \<Rightarrow> s)
      in if list_all (goroutine_returned w s1) (subprocesses (node s1))
         then (Returned None, s1\<lparr>node := (node s1)\<lparr>subprocesses := []\<rparr>\<rparr>)
         else (Blocked, s1))"

text \<open>
  A sequence of calls made one after the other. A call that blocks is the last one: its
  caller never gets to the next.
\<close>

fun run_calls :: "bootstrap_world \<Rightarrow> 'a bootstrap_state \<Rightarrow> call list \<Rightarrow> outcome list" where
  "run_calls w s [] = []"
| "run_calls w s (Start # cs) = (let (out, s') = bootstrap_Start s in out # run_calls w s' cs)"
| "run_calls w s (Close # cs) =
     (let (out, s') = bootstrap_Close w s
      in if out = Blocked then [Blocked] else out # run_calls w s' cs)"

section \<open>The supervisor and the bootstrap node, in the words of the specification\<close>

text \<open>
  The supervisor after it has brought up a protocol instance on a new endpoint, and what
  it did on the way, up to and including the call of \<open>WriteConfig\<close>.
\<close>

definition after_restart ::
  "managedOracleState \<Rightarrow> SharedConfig \<Rightarrow> OracleID \<Rightarrow> endpoint \<Rightarrow> managedOracleState" where
  "after_restart mo1 cfg oid ep =
     mo1\<lparr>mo_config := cfg, mo_netEndpoint := Some ep, mo_oracleCancel := True,
         mo_oracles := (cfg, oid, ep) # mo_oracles mo1, mo_endpoints := ep # mo_endpoints mo1\<rparr>"

definition restart_effects ::
  "managedOracleState \<Rightarrow> SharedConfig \<Rightarrow> OracleID \<Rightarrow> endpoint \<Rightarrow> ContractConfig \<Rightarrow> mo_action list" where
  "restart_effects mo1 cfg oid ep contractConfig =
     [MakeEndpoint (cfg_ConfigDigest cfg) (map PeerID (cfg_OracleIdentities cfg))
        (mo_bootstrappers mo1) (cfg_F cfg) computeTokenBucketSize,
      StartEndpoint ep, RunOracle cfg oid ep, WriteConfig contractConfig]"

text \<open>
  What a sequence of calls on a bootstrap node returns: the first \<open>Start\<close> returns
  nil and every later \<open>Start\<close> panics; \<open>Close\<close> returns nil, except that after a
  \<open>Start\<close> it blocks when the goroutine does not wind down.
\<close>

definition start_panic :: string where
  "start_panic = ''can only start a BootstrapNode once''"

fun expected_outcomes :: "bootstrap_world \<Rightarrow> bool \<Rightarrow> call list \<Rightarrow> outcome list" where
  "expected_outcomes w was_started [] = []"
| "expected_outcomes w was_started (Start # cs) =
     (if was_started then Panicked start_panic else Returned None) # expected_outcomes w True cs"
| "expected_outcomes w was_started (Close # cs) =
     (if was_started \<and> run_winds_down w = None then [Blocked]
      else Returned None # expected_outcomes w was_started cs)"

definition expected_outcome :: "bootstrap_world \<Rightarrow> call list \<Rightarrow> nat \<Rightarrow> outcome" where
  "expected_outcome w cs i =
     (case cs ! i of
        Start \<Rightarrow> if Start \<in> set (take i cs)
                   then Panicked ''can only start a BootstrapNode once''
                   else Returned None
      | Close \<Rightarrow> if Start \<in> set (take i cs) \<and> run_winds_down w = None
                   then Blocked
                   else Returned None)"

definition bootstrap_inv :: "bootstrap_world \<Rightarrow> 'a bootstrap_state \<Rightarrow> bool" where
  "bootstrap_inv w s \<longleftrightarrow>
     started (node s) \<le> 1 \<and>
     (started (node s) = 0 \<longrightarrow> subprocesses (node s) = [] \<and> cancel (node s) = None) \<and>
     (\<forall>ctx \<in> set (subprocesses (node s)). cancel (node s) = Some ctx) \<and>
     (started (node s) = 1 \<and> run_winds_down w = None \<longrightarrow> subprocesses (node s) \<noteq> [])"

section \<open>A concrete committee\<close>

text \<open>
  Four oracles with \<open>F = 1\<close> and \<open>RMax = 10\<close>, as in the spec's scenarios. A signature
  is valid here when it is the signer's key.
\<close>

definition ex_identities :: "OracleIdentity list" where
  "ex_identities =
     map (\<lambda>k. \<lparr>PeerID = ''peer'', OnChainSigningAddress = [k], OffchainPublicKey = [k],
                TransmitAddress = [k]\<rparr>) [0, 1, 2, 3]"

definition ex_config :: SharedConfig where
  "ex_config = \<lparr>cfg_ConfigDigest = [7], cfg_OracleIdentities = ex_identities, cfg_F = 1,
     cfg_RMax = 10, cfg_AlphaPPB = 1000000, cfg_DeltaC = 60\<rparr>"

definition ex_details :: TransmissionDetails where
  "ex_details = \<lparr>td_configDigest = [7], td_epoch = 1, td_round = 1, td_latestAnswer = 100,
     td_latestTimestamp = 900\<rparr>"

definition ex_world :: world where
  "ex_world = \<lparr>
     SignedObservation_Verify =
       (\<lambda>so ctx key. if so_Signature so = key then None else Some ''invalid signature''),
     MakeSignedObservation = (\<lambda>v ctx. Inr \<lparr>so_Observation = v, so_Signature = [1]\<rparr>),
     PublicKeyOffChain = [1],
     MakeAttestedReportOne =
       (\<lambda>obs ctx. Inr \<lparr>aro_AttributedObservations = obs, aro_Signature = [1]\<rparr>),
     AttestedReportOne_Verify =
       (\<lambda>rep ctx addr. if aro_Signature rep = addr then None else Some ''invalid signature''),
     PublicKeyAddressOnChain = [1],
     VerifySignatures =
       (\<lambda>rep ctx keys. if list_all (\<lambda>s. keys s \<noteq> None) (arm_Signatures rep) then None
                        else Some ''unknown signer''),
     MakeObservation =
       (\<lambda>v. if - (2 ^ 191) \<le> v \<and> v < 2 ^ 191 then Inr v else Inl ''out of range''),
     Deviates = (\<lambda>a b alpha. uint alpha * \<bar>b\<bar> < \<bar>a - b\<bar> * 1000000000),
     datasource = Observed 100,
     LatestTransmissionDetails = Inr ex_details,
     now = 1000,
     select_pacemaker = Delivered,
     select_transmission = Delivered\<rparr>"

definition ex_followerState :: followerState where
  "ex_followerState = \<lparr>fs_r = 1, fs_sentEcho = None, fs_sentReport = False,
     fs_completedRound = False, fs_receivedEcho = [True, False, False, False]\<rparr>"

definition ex_repgen :: reportGenerationState where
  "ex_repgen = \<lparr>rg_config = ex_config, rg_e = 1, rg_l = 0, rg_id = 1,
     rg_followerState = ex_followerState\<rparr>"

definition ex_aso :: "int \<Rightarrow> int \<Rightarrow> AttributedSignedObservation" where
  "ex_aso v k = \<lparr>aso_SignedObservation = \<lparr>so_Observation = v, so_Signature = [word_of_int k]\<rparr>,
     aso_Observer = k\<rparr>"

definition ex_reportReq :: MessageReportReq where
  "ex_reportReq = \<lparr>rreq_Epoch = 1, rreq_Round = 1,
     rreq_AttributedSignedObservations = [ex_aso 100 1, ex_aso 100 2, ex_aso 101 3]\<rparr>"

definition ex_report :: AttestedReportMany where
  "ex_report = \<lparr>arm_AttributedObservations =
       [\<lparr>ao_Observation = 100, ao_Observer = 1\<rparr>, \<lparr>ao_Observation = 100, ao_Observer = 2\<rparr>,
        \<lparr>ao_Observation = 101, ao_Observer = 3\<rparr>],
     arm_Signatures = [[1], [2]]\<rparr>"

definition ex_finalEcho :: MessageFinalEcho where
  "ex_finalEcho = \<lparr>fin_Epoch = 1, fin_Round = 1, fin_Report = ex_report\<rparr>"

definition ex_mo_world :: mo_world where
  "ex_mo_world = \<lparr>SharedConfigFromContractConfig = (\<lambda>cc. (ex_config, 1, None)),
     MakeEndpoint_result = Inr 5, Start_result = None, Close_result = None,
     WriteConfig_result = Some ''database unavailable''\<rparr>"

definition ex_mo :: managedOracleState where
  "ex_mo = \<lparr>mo_bootstrappers = [''boot''], mo_config = ex_config\<lparr>cfg_ConfigDigest := [6]\<rparr>,
     mo_netEndpoint = Some 4, mo_oracleCancel = True,
     mo_oracles = [(ex_config\<lparr>cfg_ConfigDigest := [6]\<rparr>, 1, 4)], mo_endpoints = [4]\<rparr>"

definition ex_contractConfig :: ContractConfig where
  "ex_contractConfig = \<lparr>cc_ConfigDigest = [7], cc_Encoded = [1, 2, 3]\<rparr>"

text \<open>
  A bootstrap goroutine with a running bootstrapper whose \<open>Close\<close> returns nil, and one
  whose \<open>Close\<close> never returns.
\<close>

definition ex_bootstrap_world :: bootstrap_world where
  "ex_bootstrap_world = \<lparr>config_change_returns = True, bootstrapper_running = True,
     bootstrapper_Close = Some None, tracker_exits = True\<rparr>"

definition ex_bootstrap_hangs :: bootstrap_world where
  "ex_bootstrap_hangs = ex_bootstrap_world\<lparr>bootstrapper_Close := None\<rparr>"

definition ex_node :: "unit BootstrapNode" where
  "ex_node = \<lparr>bootstrapArgs = (), started = 0, subprocesses = [], cancel = None\<rparr>"

lemmas ex_defs = ex_identities_def ex_config_def ex_details_def ex_world_def
  ex_followerState_def ex_repgen_def ex_aso_def ex_reportReq_def ex_report_def ex_finalEcho_def

section \<open>Properties of verifyReportReq\<close>

lemma isSorted_from_iff:
  "isSorted_from lt xs i \<longleftrightarrow> (\<forall>j<i. \<not> lt (xs ! Suc j) (xs ! j))"
  by (induction i) (auto simp: less_Suc_eq)

lemma SliceIsSorted_Less_iff:
  "SliceIsSorted (\<lambda>a b. Less (f a) (f b)) xs \<longleftrightarrow> sorted (map f xs)"
proof -
  have "sorted (map f xs) \<longleftrightarrow> (\<forall>j. Suc j < length xs \<longrightarrow> f (xs ! j) \<le> f (xs ! Suc j))"
    by (simp add: sorted_iff_nth_Suc)
  also have "\<dots> \<longleftrightarrow> (\<forall>j<length xs - 1. \<not> f (xs ! Suc j) < f (xs ! j))"
    by (auto simp: not_less less_diff_conv)
  finally show ?thesis
    by (simp add: SliceIsSorted_def isSorted_from_iff Less_def)
qed

lemma check_observations_Inr_iff:
  "check_observations w repgen obs counted = Inr c' \<longleftrightarrow>
     observers_in_range repgen obs \<and>
     (\<forall>a \<in> set obs. counted (aso_Observer a) \<noteq> Some True) \<and>
     observers_distinct obs \<and>
     signatures_verify w repgen obs \<and>
     c' = (\<lambda>k. if k \<in> aso_Observer ` set obs then Some True else counted k)"
proof (induction obs arbitrary: counted)
  case Nil
  then show ?case
    by (auto simp: observers_in_range_def observers_distinct_def signatures_verify_def)
next
  case (Cons a obs)
  let ?k = "aso_Observer a"
  have upd: "(\<lambda>k. if k \<in> aso_Observer ` set obs then Some True else (counted(?k \<mapsto> True)) k)
           = (\<lambda>k. if k \<in> aso_Observer ` set (a # obs) then Some True else counted k)"
    by (rule ext) auto
  have fresh: "(\<forall>b \<in> set obs. (counted(?k \<mapsto> True)) (aso_Observer b) \<noteq> Some True) \<longleftrightarrow>
               (\<forall>b \<in> set obs. counted (aso_Observer b) \<noteq> Some True) \<and> ?k \<notin> aso_Observer ` set obs"
    by (auto simp: image_iff)
  show ?case
  proof (cases "aso_Observer a < 0 \<or> int (length (cfg_OracleIdentities (rg_config repgen))) \<le> ?k")
    case True
    then show ?thesis
      by (auto simp: observers_in_range_def cfg_N_def)
  next
    case inrange: False
    show ?thesis
    proof (cases "counted ?k = Some True")
      case True
      with inrange show ?thesis by simp
    next
      case unseen: False
      show ?thesis
      proof (cases "SignedObservation_Verify w (aso_SignedObservation a)
                      (followerReportContext repgen)
                      (OffchainPublicKey (cfg_OracleIdentities (rg_config repgen) ! nat ?k))")
        case (Some err)
        with inrange unseen show ?thesis
          by (auto simp: signatures_verify_def followerReportContext_def)
      next
        case None
        have "check_observations w repgen (a # obs) counted = Inr c' \<longleftrightarrow>
              check_observations w repgen obs (counted(?k \<mapsto> True)) = Inr c'"
          using inrange unseen None by simp
        also have "\<dots> \<longleftrightarrow> observers_in_range repgen obs \<and>
             ((\<forall>b \<in> set obs. counted (aso_Observer b) \<noteq> Some True) \<and> ?k \<notin> aso_Observer ` set obs) \<and>
             observers_distinct obs \<and> signatures_verify w repgen obs \<and>
             c' = (\<lambda>k. if k \<in> aso_Observer ` set (a # obs) then Some True else counted k)"
          by (simp only: Cons.IH upd fresh)
        also have "\<dots> \<longleftrightarrow> observers_in_range repgen (a # obs) \<and>
             (\<forall>b \<in> set (a # obs). counted (aso_Observer b) \<noteq> Some True) \<and>
             observers_distinct (a # obs) \<and> signatures_verify w repgen (a # obs) \<and>
             c' = (\<lambda>k. if k \<in> aso_Observer ` set (a # obs) then Some True else counted k)"
          using inrange unseen None
          by (auto simp: observers_in_range_def observers_distinct_def signatures_verify_def
                         followerReportContext_def cfg_N_def)
        finally show ?thesis .
      qed
    qed
  qed
qed

text \<open>
  C1. A report request passes \<open>verifyReportReq\<close> exactly when its observations are sorted
  ascending by value, every observer is an oracle id in \<open>[0, N)\<close>, no two entries share an
  observer, every signature verifies under the observer's off-chain key over the report
  context \<open>(ConfigDigest, e, r)\<close>, and there are more than \<open>2F\<close> distinct observers; in every
  other case it returns an error. \<open>2 * F\<close> is assumed not to overflow a Go \<open>int\<close>, as
  is the case for every shared configuration, where \<open>0 \<le> F\<close> and \<open>3F < N\<close>.
\<close>

theorem verifyReportReq_accepts_iff:
  assumes "go_int (2 * cfg_F (rg_config repgen)) = 2 * cfg_F (rg_config repgen)"
  shows "verifyReportReq w repgen msg = None \<longleftrightarrow>
           observations_sorted (rreq_AttributedSignedObservations msg) \<and>
           observers_in_range repgen (rreq_AttributedSignedObservations msg) \<and>
           observers_distinct (rreq_AttributedSignedObservations msg) \<and>
           signatures_verify w repgen (rreq_AttributedSignedObservations msg) \<and>
           2 * cfg_F (rg_config repgen) < int (distinct_observers (rreq_AttributedSignedObservations msg))"
proof -
  let ?obs = "rreq_AttributedSignedObservations msg"
  let ?final = "\<lambda>k. if k \<in> aso_Observer ` set ?obs then Some True else (Map.empty :: OracleID \<rightharpoonup> bool) k"
  have dom_final: "dom ?final = aso_Observer ` set ?obs"
    by (auto simp: dom_def)
  show ?thesis
  proof (cases "check_observations w repgen ?obs Map.empty")
    case (Inl err)
    then have "\<not> (observers_in_range repgen ?obs \<and> observers_distinct ?obs \<and>
                  signatures_verify w repgen ?obs)"
      using check_observations_Inr_iff [of w repgen ?obs Map.empty ?final] by auto
    with Inl show ?thesis
      by (auto simp: verifyReportReq_def)
  next
    case (Inr counted)
    then have props: "observers_in_range repgen ?obs" "observers_distinct ?obs"
        "signatures_verify w repgen ?obs" "counted = ?final"
      using check_observations_Inr_iff [of w repgen ?obs Map.empty counted] by auto
    have "dom counted = aso_Observer ` set ?obs"
      using props(4) dom_final by simp
    with Inr props(1-3) assms show ?thesis
      by (auto simp: verifyReportReq_def SliceIsSorted_Less_iff observations_sorted_def
                     distinct_observers_def Let_def)
  qed
qed

theorem verifyReportReq_accepts_iff_witness:
  "go_int (2 * cfg_F (rg_config ex_repgen)) = 2 * cfg_F (rg_config ex_repgen) \<and>
   verifyReportReq ex_world ex_repgen ex_reportReq = None"
  using verifyReportReq_accepts_iff [of ex_repgen ex_world ex_reportReq]
  by (simp add: ex_defs go_int_def observations_sorted_def observers_in_range_def
        observers_distinct_def signatures_verify_def distinct_observers_def cfg_N_def)

text \<open>Scenario S5: a request with exactly \<open>2F = 2\<close> distinct observers is rejected.\<close>

lemma verifyReportReq_exactly_2F:
  "verifyReportReq ex_world ex_repgen
     (ex_reportReq\<lparr>rreq_AttributedSignedObservations := [ex_aso 100 1, ex_aso 100 2]\<rparr>)
   = Some (NotEnoughObservations 2 2)"
  by (simp add: ex_defs verifyReportReq_def SliceIsSorted_def Less_def go_int_def
        followerReportContext_def)

section \<open>Properties of messageObserveReq\<close>

lemma messageObserveReq_round:
  assumes "observeReq_guards repgen msg sender"
  shows "fs_r (rg_followerState (fst (messageObserveReq w repgen msg sender))) = oreq_Round msg"
proof -
  from assms have g: "oreq_Epoch msg = rg_e repgen" "sender = rg_l repgen"
      "\<not> oreq_Round msg \<le> fs_r (rg_followerState repgen)"
      "\<not> uint (cfg_RMax (rg_config repgen)) + 1 < uint (oreq_Round msg)"
    by (auto simp: observeReq_guards_def)
  show ?thesis
    unfolding messageObserveReq_def Let_def
    by (simp only: g if_False if_True refl not_False_eq_True not_not)
       (simp split: prod.splits option.splits sum.splits)
qed

text \<open>
  C3. Unless all four guards hold (same epoch, sender is the leader, the round is above the
  follower's round, the round is at most \<open>RMax + 1\<close>), \<open>messageObserveReq\<close> drops the
  message: the state is unchanged and the only effect is the log line of the first guard
  that fails in that order, so no \<open>ChangeLeader\<close> is emitted. When all four hold the
  message is not dropped: the follower state changes.
\<close>

theorem messageObserveReq_drops_unless_guards:
  "(\<not> observeReq_guards repgen msg sender \<longrightarrow>
      messageObserveReq w repgen msg sender = (repgen, [observeReq_drop_log repgen msg sender])) \<and>
   (observeReq_guards repgen msg sender \<longrightarrow>
      rg_followerState (fst (messageObserveReq w repgen msg sender)) \<noteq> rg_followerState repgen)"
proof (intro conjI impI)
  assume "\<not> observeReq_guards repgen msg sender"
  then show "messageObserveReq w repgen msg sender = (repgen, [observeReq_drop_log repgen msg sender])"
    by (auto simp: observeReq_guards_def observeReq_drop_log_def messageObserveReq_def not_le not_less)
next
  assume g: "observeReq_guards repgen msg sender"
  then have "fs_r (rg_followerState repgen) \<noteq> oreq_Round msg"
    by (auto simp: observeReq_guards_def)
  with messageObserveReq_round [OF g, of w]
  show "rg_followerState (fst (messageObserveReq w repgen msg sender)) \<noteq> rg_followerState repgen"
    by auto
qed

text \<open>
  Scenario S3: with \<open>RMax = 10\<close> a request for round 12 is dropped for its round being
  out of bounds, and no \<open>ChangeLeader\<close> is emitted; a request for round 2 is taken up.
\<close>

theorem messageObserveReq_drops_unless_guards_witness:
  "\<not> observeReq_guards ex_repgen \<lparr>oreq_Epoch = 1, oreq_Round = 12\<rparr> 0 \<and>
   messageObserveReq ex_world ex_repgen \<lparr>oreq_Epoch = 1, oreq_Round = 12\<rparr> 0 =
     (ex_repgen, [Log Warn ''messageObserveReq: dropping MessageObserveReq from out of bounds round'']) \<and>
   ToPacemaker EventChangeLeader \<notin>
     set (snd (messageObserveReq ex_world ex_repgen \<lparr>oreq_Epoch = 1, oreq_Round = 12\<rparr> 0)) \<and>
   observeReq_guards ex_repgen \<lparr>oreq_Epoch = 1, oreq_Round = 2\<rparr> 0 \<and>
   rg_followerState (fst (messageObserveReq ex_world ex_repgen \<lparr>oreq_Epoch = 1, oreq_Round = 2\<rparr> 0))
     \<noteq> rg_followerState ex_repgen"
  using messageObserveReq_drops_unless_guards [of ex_repgen "\<lparr>oreq_Epoch = 1, oreq_Round = 12\<rparr>" 0 ex_world]
        messageObserveReq_drops_unless_guards [of ex_repgen "\<lparr>oreq_Epoch = 1, oreq_Round = 2\<rparr>" 0 ex_world]
  by (simp add: observeReq_guards_def observeReq_drop_log_def ex_defs)

text \<open>
  C4, as the code has it. When a request passes the four guards and its round is above
  \<open>RMax\<close>, \<open>messageObserveReq\<close> sets the follower's round to the message's round and
  returns. Nothing else of the state changes (\<open>sentEcho\<close>, \<open>sentReport\<close>,
  \<open>completedRound\<close> and \<open>receivedEcho\<close> are not reset), the data source is not asked
  and nothing is sent to the leader. The \<open>ChangeLeader\<close> event reaches the pacemaker
  channel exactly when the send is not pre-empted by the cancellation of the follower's
  context.
\<close>

theorem messageObserveReq_leader_expired:
  assumes "observeReq_guards repgen msg sender"
    and "cfg_RMax (rg_config repgen) < oreq_Round msg"
  shows "messageObserveReq w repgen msg sender =
           (repgen\<lparr>rg_followerState := (rg_followerState repgen)\<lparr>fs_r := oreq_Round msg\<rparr>\<rparr>,
            Log Debug ''messageReportReq: leader sent MessageObserveReq past its expiration round. Time to change leader''
              # (case select_pacemaker w of
                   Delivered \<Rightarrow> [ToPacemaker EventChangeLeader]
                 | CtxDone \<Rightarrow> []))"
proof -
  from assms have g: "oreq_Epoch msg = rg_e repgen" "sender = rg_l repgen"
      "\<not> oreq_Round msg \<le> fs_r (rg_followerState repgen)"
      "\<not> uint (cfg_RMax (rg_config repgen)) + 1 < uint (oreq_Round msg)"
    by (auto simp: observeReq_guards_def)
  show ?thesis
    unfolding messageObserveReq_def Let_def
    by (simp only: g if_False if_True refl not_False_eq_True not_not)
       (simp add: assms(2) select_send_def)
qed

text \<open>Scenario S4: round \<open>RMax + 1 = 11\<close> with a live context.\<close>

theorem messageObserveReq_leader_expired_witness:
  "observeReq_guards ex_repgen \<lparr>oreq_Epoch = 1, oreq_Round = 11\<rparr> 0 \<and>
   cfg_RMax (rg_config ex_repgen) < oreq_Round \<lparr>oreq_Epoch = 1, oreq_Round = 11\<rparr> \<and>
   messageObserveReq ex_world ex_repgen \<lparr>oreq_Epoch = 1, oreq_Round = 11\<rparr> 0 =
     (ex_repgen\<lparr>rg_followerState := ex_followerState\<lparr>fs_r := 11\<rparr>\<rparr>,
      [Log Debug ''messageReportReq: leader sent MessageObserveReq past its expiration round. Time to change leader'',
       ToPacemaker EventChangeLeader])"
  using messageObserveReq_leader_expired [of ex_repgen "\<lparr>oreq_Epoch = 1, oreq_Round = 11\<rparr>" 0 ex_world]
  by (simp add: observeReq_guards_def ex_defs)

text \<open>
  The same request when the follower's context is cancelled before the pacemaker takes the
  event: the guards hold, the round is above \<open>RMax\<close>, and no \<open>ChangeLeader\<close> is emitted.
\<close>

theorem messageObserveReq_leader_expired_counterexample:
  "observeReq_guards ex_repgen \<lparr>oreq_Epoch = 1, oreq_Round = 11\<rparr> 0 \<and>
   cfg_RMax (rg_config ex_repgen) < oreq_Round \<lparr>oreq_Epoch = 1, oreq_Round = 11\<rparr> \<and>
   ToPacemaker EventChangeLeader \<notin>
     set (snd (messageObserveReq (ex_world\<lparr>select_pacemaker := CtxDone\<rparr>) ex_repgen
                 \<lparr>oreq_Epoch = 1, oreq_Round = 11\<rparr> 0))"
  by (simp add: observeReq_guards_def messageObserveReq_def select_send_def Let_def ex_defs)

section \<open>Properties of messageFinalEcho\<close>

lemma fold_count: "fold (\<lambda>receivedEcho count. if receivedEcho then count + 1 else count) xs (a::int)
      = a + int (length (filter (\<lambda>b. b) xs))"
  by (induction xs arbitrary: a) auto

lemma count_receivedEcho_eq: "count_receivedEcho xs = int (length (filter (\<lambda>b. b) xs))"
  by (simp add: count_receivedEcho_def fold_count)

lemma verifyAttestedReport_True:
  "fst (verifyAttestedReport w repgen report sender) \<Longrightarrow>
   verifyAttestedReport w repgen report sender = (True, [])"
  by (auto simp: verifyAttestedReport_def split: if_splits option.splits)

lemma messageFinalEcho_passed:
  assumes "finalEcho_guards w repgen msg sender"
  shows "messageFinalEcho w repgen msg sender =
     (let fs2 = (rg_followerState repgen)
                  \<lparr>fs_receivedEcho := (fs_receivedEcho (rg_followerState repgen))[nat sender := True],
                   fs_sentEcho := Some (echo_after repgen msg)\<rparr>;
          echoed = (if fs_sentEcho (rg_followerState repgen) = None
                    then [Broadcast (MsgFinalEcho msg)] else [])
      in if cfg_F (rg_config repgen) < echoes_after repgen sender
         then Inr (repgen\<lparr>rg_followerState := fs2\<lparr>fs_completedRound := True\<rparr>\<rparr>,
                   echoed
                   @ select_send (select_transmission w)
                       (ToTransmission (EventTransmit (rg_e repgen) (fs_r (rg_followerState repgen))
                                          (echo_after repgen msg)))
                   @ Log Debug ''ReportGeneration: completed round''
                     # select_send (select_pacemaker w) (ToPacemaker EventProgress))
         else Inr (repgen\<lparr>rg_followerState := fs2\<rparr>, echoed))"
proof -
  from assms have g: "fin_Epoch msg = rg_e repgen" "fin_Round msg = fs_r (rg_followerState repgen)"
      "\<not> (sender < 0 \<or> int (length (fs_receivedEcho (rg_followerState repgen))) \<le> sender)"
      "\<not> fs_receivedEcho (rg_followerState repgen) ! nat sender"
      "\<not> fs_completedRound (rg_followerState repgen)"
      "verifyAttestedReport w repgen (fin_Report msg) sender = (True, [])"
    by (auto simp: finalEcho_guards_def verifyAttestedReport_True)
  show ?thesis
    unfolding messageFinalEcho_def Let_def
    by (simp only: g if_False if_True refl not_False_eq_True not_not)
       (auto simp: count_receivedEcho_eq echoes_after_def echo_after_def completeRound_def
             split: option.splits)
qed

text \<open>
  C2, as the code has it. For a final echo that passes all guards, the sender's echo is
  recorded and \<open>sentEcho\<close> holds a report afterwards (the one already there, or this
  message's). \<open>completeRound\<close> is called exactly when the number of true entries of
  \<open>receivedEcho\<close> is then above \<open>F\<close>; \<open>completedRound\<close> was false before, by the
  guards. A \<open>Transmit\<close> event reaches the transmission channel exactly when that count is
  above \<open>F\<close> and the send is not pre-empted by the cancellation of the follower's
  context, and it is \<open>Transmit(e, r, sentEcho)\<close>.
\<close>

theorem messageFinalEcho_transmission_quorum:
  assumes "finalEcho_guards w repgen msg sender"
  shows "\<exists>repgen' acts.
           messageFinalEcho w repgen msg sender = Inr (repgen', acts) \<and>
           fs_receivedEcho (rg_followerState repgen') =
             (fs_receivedEcho (rg_followerState repgen))[nat sender := True] \<and>
           fs_sentEcho (rg_followerState repgen') = Some (echo_after repgen msg) \<and>
           (fs_completedRound (rg_followerState repgen') \<longleftrightarrow>
              cfg_F (rg_config repgen) < echoes_after repgen sender) \<and>
           (Log Debug ''ReportGeneration: completed round'' \<in> set acts \<longleftrightarrow>
              cfg_F (rg_config repgen) < echoes_after repgen sender) \<and>
           (\<forall>ev. ToTransmission ev \<in> set acts \<longleftrightarrow>
              cfg_F (rg_config repgen) < echoes_after repgen sender \<and>
              select_transmission w = Delivered \<and>
              ev = EventTransmit (rg_e repgen) (fs_r (rg_followerState repgen)) (echo_after repgen msg))"
proof (cases "cfg_F (rg_config repgen) < echoes_after repgen sender")
  case True
  then show ?thesis
    using messageFinalEcho_passed [OF assms] assms
    by (auto simp: Let_def select_send_def finalEcho_guards_def split: select_outcome.splits)
next
  case False
  then show ?thesis
    using messageFinalEcho_passed [OF assms] assms
    by (auto simp: Let_def finalEcho_guards_def)
qed

text \<open>
  Oracle 1 sends the second echo of a round (\<open>F = 1\<close>) while the follower's context is
  cancelled: the guards hold, two echoes are more than \<open>F\<close>, the round is completed, and
  no \<open>Transmit\<close> is emitted.
\<close>

theorem messageFinalEcho_transmission_quorum_counterexample:
  "finalEcho_guards (ex_world\<lparr>select_transmission := CtxDone\<rparr>) ex_repgen ex_finalEcho 1 \<and>
   cfg_F (rg_config ex_repgen) < echoes_after ex_repgen 1 \<and>
   messageFinalEcho (ex_world\<lparr>select_transmission := CtxDone\<rparr>) ex_repgen ex_finalEcho 1 =
     Inr (ex_repgen\<lparr>rg_followerState := ex_followerState
            \<lparr>fs_receivedEcho := [True, True, False, False], fs_sentEcho := Some ex_report,
             fs_completedRound := True\<rparr>\<rparr>,
          [Broadcast (MsgFinalEcho ex_finalEcho),
           Log Debug ''ReportGeneration: completed round'', ToPacemaker EventProgress])"
  by (simp add: finalEcho_guards_def echoes_after_def messageFinalEcho_def verifyAttestedReport_def
        onchain_keys_def followerReportContext_def completeRound_def select_send_def
        count_receivedEcho_def Let_def ex_defs)

text \<open>Scenario S1: the same echo with a live context is transmitted.\<close>

theorem messageFinalEcho_transmission_quorum_witness:
  "finalEcho_guards ex_world ex_repgen ex_finalEcho 1 \<and>
   (\<exists>repgen' acts. messageFinalEcho ex_world ex_repgen ex_finalEcho 1 = Inr (repgen', acts) \<and>
      fs_completedRound (rg_followerState repgen') \<and>
      ToTransmission (EventTransmit 1 1 ex_report) \<in> set acts)"
proof -
  have g: "finalEcho_guards ex_world ex_repgen ex_finalEcho 1"
    by (simp add: finalEcho_guards_def verifyAttestedReport_def onchain_keys_def ex_defs)
  have c: "cfg_F (rg_config ex_repgen) < echoes_after ex_repgen 1"
    by (simp add: echoes_after_def ex_defs)
  have e: "echo_after ex_repgen ex_finalEcho = ex_report" "select_transmission ex_world = Delivered"
     "rg_e ex_repgen = 1" "fs_r (rg_followerState ex_repgen) = 1"
    by (simp_all add: echo_after_def ex_defs)
  from messageFinalEcho_transmission_quorum [OF g] c e g show ?thesis
    by metis
qed

section \<open>Properties of shouldReport\<close>

text \<open>
  C5. \<open>shouldReport\<close> answers true whenever \<open>LatestTransmissionDetails\<close> fails. When it
  succeeds and the contract's answer is a valid observation, it answers true exactly when
  it is the initial round (the contract has this config's digest and epoch and round zero),
  or the median observation \<open>observations[len/2]\<close> deviates from the contract's answer by
  \<open>AlphaPPB\<close>, or the contract's timestamp plus \<open>DeltaC\<close> is before the current time.
  The observations are those of a verified report request, so there is at least one.
\<close>

theorem shouldReport_policy:
  "(\<forall>err. LatestTransmissionDetails w = Inl err \<longrightarrow>
      reports (shouldReport w repgen observations) True) \<and>
   (\<forall>td answer.
      LatestTransmissionDetails w = Inr td \<and> MakeObservation w (td_latestAnswer td) = Inr answer \<and>
      observations \<noteq> [] \<longrightarrow>
      reports (shouldReport w repgen observations)
        (initial_round repgen td \<or> median_deviates w repgen observations answer \<or>
         heartbeat_due w repgen td))"
proof (intro conjI allI impI)
  fix err assume "LatestTransmissionDetails w = Inl err"
  then show "reports (shouldReport w repgen observations) True"
    by (simp add: shouldReport_def reports_def)
next
  fix td answer
  assume a: "LatestTransmissionDetails w = Inr td \<and>
     MakeObservation w (td_latestAnswer td) = Inr answer \<and> observations \<noteq> []"
  then have "\<not> length observations \<le> length observations div 2"
    by (cases observations) auto
  with a show "reports (shouldReport w repgen observations)
        (initial_round repgen td \<or> median_deviates w repgen observations answer \<or>
         heartbeat_due w repgen td)"
    by (simp add: shouldReport_def reports_def Let_def initial_round_def median_deviates_def
          heartbeat_due_def)
qed

text \<open>
  Scenarios S9 and S8: the blockchain node is down; and the heartbeat is due while it is
  not the initial round and the median does not deviate.
\<close>

theorem shouldReport_policy_witness:
  "LatestTransmissionDetails (ex_world\<lparr>LatestTransmissionDetails := Inl ''node down''\<rparr>)
     = Inl ''node down'' \<and>
   reports (shouldReport (ex_world\<lparr>LatestTransmissionDetails := Inl ''node down''\<rparr>) ex_repgen
              (rreq_AttributedSignedObservations ex_reportReq)) True \<and>
   LatestTransmissionDetails ex_world = Inr ex_details \<and>
   MakeObservation ex_world (td_latestAnswer ex_details) = Inr 100 \<and>
   rreq_AttributedSignedObservations ex_reportReq \<noteq> [] \<and>
   \<not> initial_round ex_repgen ex_details \<and>
   \<not> median_deviates ex_world ex_repgen (rreq_AttributedSignedObservations ex_reportReq) 100 \<and>
   heartbeat_due ex_world ex_repgen ex_details \<and>
   reports (shouldReport ex_world ex_repgen (rreq_AttributedSignedObservations ex_reportReq)) True"
  using shouldReport_policy [of "ex_world\<lparr>LatestTransmissionDetails := Inl ''node down''\<rparr>" ex_repgen
          "rreq_AttributedSignedObservations ex_reportReq"]
        shouldReport_policy [of ex_world ex_repgen "rreq_AttributedSignedObservations ex_reportReq"]
  by (simp add: initial_round_def median_deviates_def heartbeat_due_def ex_defs)

text \<open>
  C9. When \<open>LatestTransmissionDetails\<close> succeeds and \<open>MakeObservation\<close> fails on the
  contract's answer, \<open>shouldReport\<close> logs the error and answers false.
\<close>

theorem shouldReport_invalid_answer:
  assumes "LatestTransmissionDetails w = Inr td"
    and "MakeObservation w (td_latestAnswer td) = Inl err"
  shows "shouldReport w repgen observations =
           Inr (False, [QueryLatestTransmissionDetails,
                        Log Error ''shouldReport: Error during observation.NewObservation''])"
  using assms by (simp add: shouldReport_def)

text \<open>An on-chain answer of \<open>2 ^ 191\<close>, one above the largest 192-bit signed value.\<close>

theorem shouldReport_invalid_answer_witness:
  "LatestTransmissionDetails
     (ex_world\<lparr>LatestTransmissionDetails := Inr (ex_details\<lparr>td_latestAnswer := 2 ^ 191\<rparr>)\<rparr>)
     = Inr (ex_details\<lparr>td_latestAnswer := 2 ^ 191\<rparr>) \<and>
   MakeObservation
     (ex_world\<lparr>LatestTransmissionDetails := Inr (ex_details\<lparr>td_latestAnswer := 2 ^ 191\<rparr>)\<rparr>)
     (td_latestAnswer (ex_details\<lparr>td_latestAnswer := 2 ^ 191\<rparr>)) = Inl ''out of range'' \<and>
   shouldReport
     (ex_world\<lparr>LatestTransmissionDetails := Inr (ex_details\<lparr>td_latestAnswer := 2 ^ 191\<rparr>)\<rparr>)
     ex_repgen (rreq_AttributedSignedObservations ex_reportReq) =
     Inr (False, [QueryLatestTransmissionDetails,
                  Log Error ''shouldReport: Error during observation.NewObservation''])"
  using shouldReport_invalid_answer
          [of "ex_world\<lparr>LatestTransmissionDetails := Inr (ex_details\<lparr>td_latestAnswer := 2 ^ 191\<rparr>)\<rparr>"
              "ex_details\<lparr>td_latestAnswer := 2 ^ 191\<rparr>" "''out of range''" ex_repgen
              "rreq_AttributedSignedObservations ex_reportReq"]
  by (simp add: ex_defs)

section \<open>Round idempotence\<close>

text \<open>
  C6. Once \<open>completedRound\<close> is true, a \<open>MessageReportReq\<close> or a \<open>MessageFinalEcho\<close>
  for the follower's epoch and round is dropped: the handler returns the state it was
  given and writes log lines only, so no \<open>Transmit\<close> and no \<open>Progress\<close> event is emitted.
  The sender of the echo is an oracle id, an index of \<open>receivedEcho\<close>.
\<close>

theorem completed_round_drops:
  assumes "fs_completedRound (rg_followerState repgen)"
  shows "(rreq_Epoch rmsg = rg_e repgen \<and> rreq_Round rmsg = fs_r (rg_followerState repgen) \<longrightarrow>
            (\<exists>acts. messageReportReq w repgen rmsg sender = Inr (repgen, acts) \<and> only_logs acts)) \<and>
         (fin_Epoch emsg = rg_e repgen \<and> fin_Round emsg = fs_r (rg_followerState repgen) \<and>
          0 \<le> sender' \<and> sender' < int (length (fs_receivedEcho (rg_followerState repgen))) \<longrightarrow>
            (\<exists>acts. messageFinalEcho w repgen emsg sender' = Inr (repgen, acts) \<and> only_logs acts))"
  using assms
  by (auto simp: messageReportReq_def messageFinalEcho_def only_logs_def Let_def)

theorem completed_round_drops_witness:
  "fs_completedRound (rg_followerState
     (ex_repgen\<lparr>rg_followerState := ex_followerState\<lparr>fs_completedRound := True\<rparr>\<rparr>)) \<and>
   rreq_Epoch ex_reportReq = rg_e ex_repgen \<and> rreq_Round ex_reportReq = fs_r ex_followerState \<and>
   fin_Epoch ex_finalEcho = rg_e ex_repgen \<and> fin_Round ex_finalEcho = fs_r ex_followerState \<and>
   (1::int) < int (length (fs_receivedEcho ex_followerState)) \<and>
   messageReportReq ex_world (ex_repgen\<lparr>rg_followerState := ex_followerState\<lparr>fs_completedRound := True\<rparr>\<rparr>)
      ex_reportReq 0 =
     Inr (ex_repgen\<lparr>rg_followerState := ex_followerState\<lparr>fs_completedRound := True\<rparr>\<rparr>,
          [Log Warn ''messageReportReq after round completed'']) \<and>
   messageFinalEcho ex_world (ex_repgen\<lparr>rg_followerState := ex_followerState\<lparr>fs_completedRound := True\<rparr>\<rparr>)
      ex_finalEcho 1 =
     Inr (ex_repgen\<lparr>rg_followerState := ex_followerState\<lparr>fs_completedRound := True\<rparr>\<rparr>,
          [Log Debug ''received final echo after round completion''])"
  using completed_round_drops
     [of "ex_repgen\<lparr>rg_followerState := ex_followerState\<lparr>fs_completedRound := True\<rparr>\<rparr>"
         ex_reportReq ex_world 0 ex_finalEcho 1]
  by (simp add: messageReportReq_def messageFinalEcho_def Let_def ex_defs)

section \<open>Properties of the supervisor\<close>

text \<open>The size of the token bucket handed to \<open>MakeEndpoint\<close> is the constant 16.\<close>

lemma computeTokenBucketSize_16: "computeTokenBucketSize = 16"
  by (simp add: computeTokenBucketSize_def)

text \<open>
  C8. When \<open>configChanged\<close> has closed the previous instance, decoded the new config,
  made and started the new endpoint and spawned the protocol on it, a failing
  \<open>WriteConfig\<close> is logged and the call returns normally. The supervisor is left exactly
  as a successful write leaves it: \<open>mo.config\<close>, \<open>mo.netEndpoint\<close> and
  \<open>mo.oracleCancel\<close> are those of the new instance, and the protocol instance and the
  endpoint started in this call are still running. The error log line is the only
  difference.
\<close>

theorem configChanged_write_failure:
  assumes "closeOracle w mo = Inr (mo1, closed)"
    and "SharedConfigFromContractConfig w contractConfig = (cfg, oid, None)"
    and "MakeEndpoint_result w = Inr ep"
    and "Start_result w = None"
    and "WriteConfig_result w = Some err"
  shows "configChanged w mo contractConfig =
           Inr (after_restart mo1 cfg oid ep,
                closed @ restart_effects mo1 cfg oid ep contractConfig
                @ [MoLog Error ''ManagedOracle: error writing new config to database'']) \<and>
         configChanged (w\<lparr>WriteConfig_result := None\<rparr>) mo contractConfig =
           Inr (after_restart mo1 cfg oid ep,
                closed @ restart_effects mo1 cfg oid ep contractConfig)"
proof -
  have "closeOracle (w\<lparr>WriteConfig_result := None\<rparr>) mo = closeOracle w mo"
    by (simp add: closeOracle_def split: option.split)
  with assms show ?thesis
    by (simp add: configChanged_def after_restart_def restart_effects_def Let_def)
qed

text \<open>
  A config change from digest 6 to digest 7 with the database down: endpoint 4 is closed,
  endpoint 5 is made and started, the protocol runs on it, and the write error is logged.
\<close>

theorem configChanged_write_failure_witness:
  "closeOracle ex_mo_world ex_mo =
     Inr (ex_mo\<lparr>mo_oracles := [], mo_endpoints := [], mo_oracleCancel := False, mo_netEndpoint := None\<rparr>,
          [CancelOracle, WaitOracle, CloseEndpoint 4]) \<and>
   SharedConfigFromContractConfig ex_mo_world ex_contractConfig = (ex_config, 1, None) \<and>
   MakeEndpoint_result ex_mo_world = Inr 5 \<and> Start_result ex_mo_world = None \<and>
   WriteConfig_result ex_mo_world = Some ''database unavailable'' \<and>
   configChanged ex_mo_world ex_mo ex_contractConfig =
     Inr (\<lparr>mo_bootstrappers = [''boot''], mo_config = ex_config, mo_netEndpoint = Some 5,
           mo_oracleCancel = True, mo_oracles = [(ex_config, 1, 5)], mo_endpoints = [5]\<rparr>,
          [CancelOracle, WaitOracle, CloseEndpoint 4,
           MakeEndpoint [7] [''peer'', ''peer'', ''peer'', ''peer''] [''boot''] 1 16,
           StartEndpoint 5, RunOracle ex_config 1 5, WriteConfig ex_contractConfig,
           MoLog Error ''ManagedOracle: error writing new config to database''])"
proof -
  have c: "closeOracle ex_mo_world ex_mo =
     Inr (ex_mo\<lparr>mo_oracles := [], mo_endpoints := [], mo_oracleCancel := False, mo_netEndpoint := None\<rparr>,
          [CancelOracle, WaitOracle, CloseEndpoint 4])"
    by (simp add: closeOracle_def ex_mo_world_def ex_mo_def)
  have w: "SharedConfigFromContractConfig ex_mo_world ex_contractConfig = (ex_config, 1, None)"
     "MakeEndpoint_result ex_mo_world = Inr 5" "Start_result ex_mo_world = None"
     "WriteConfig_result ex_mo_world = Some ''database unavailable''"
    by (simp_all add: ex_mo_world_def)
  from configChanged_write_failure [OF c w] c w show ?thesis
    by (simp add: after_restart_def restart_effects_def computeTokenBucketSize_def ex_mo_def)
       (simp add: ex_config_def ex_identities_def)
qed

section \<open>Properties of the bootstrap node\<close>

lemma bootstrap_Close_inv:
  assumes "bootstrap_inv w s"
  shows "fst (bootstrap_Close w s) =
           (if started (node s) = 1 \<and> run_winds_down w = None then Blocked else Returned None) \<and>
         bootstrap_inv w (snd (bootstrap_Close w s)) \<and>
         started (node (snd (bootstrap_Close w s))) = started (node s)"
proof (cases "cancel (node s)")
  case None
  with assms have "subprocesses (node s) = []" "started (node s) = 0 \<or> run_winds_down w \<noteq> None"
    by (auto simp: bootstrap_inv_def)
  with None assms show ?thesis
    by (auto simp: bootstrap_inv_def bootstrap_Close_def Let_def)
next
  case (Some ctx)
  with assms have one: "started (node s) = 1" and all: "\<forall>c \<in> set (subprocesses (node s)). c = ctx"
    by (auto simp: bootstrap_inv_def)
  show ?thesis
  proof (cases "run_winds_down w")
    case None
    with assms one have "subprocesses (node s) \<noteq> []"
      by (auto simp: bootstrap_inv_def)
    then have "\<not> list_all (goroutine_returned w (s\<lparr>cancelled := ctx # cancelled s\<rparr>))
                  (subprocesses (node s))"
      using None by (cases "subprocesses (node s)") (auto simp: goroutine_returned_def)
    with Some None one assms show ?thesis
      by (auto simp: bootstrap_inv_def bootstrap_Close_def Let_def)
  next
    case winds: (Some logged)
    have "list_all (goroutine_returned w (s\<lparr>cancelled := ctx # cancelled s\<rparr>))
            (subprocesses (node s))"
      using all winds by (auto simp: list_all_iff goroutine_returned_def)
    with Some winds one assms show ?thesis
      by (auto simp: bootstrap_inv_def bootstrap_Close_def Let_def)
  qed
qed

lemma bootstrap_Start_inv:
  assumes "bootstrap_inv w s"
  shows "fst (bootstrap_Start s) =
           (if started (node s) = 1 then Panicked start_panic else Returned None) \<and>
         bootstrap_inv w (snd (bootstrap_Start s)) \<and>
         started (node (snd (bootstrap_Start s))) = 1"
  using assms
  by (auto simp: bootstrap_inv_def bootstrap_Start_def TryAcquire_def Let_def start_panic_def)

lemma run_calls_expected:
  "bootstrap_inv w s \<Longrightarrow> run_calls w s cs = expected_outcomes w (started (node s) = 1) cs"
proof (induction cs arbitrary: s)
  case Nil
  then show ?case by simp
next
  case (Cons c cs)
  show ?case
  proof (cases c)
    case Start
    with Cons.IH [of "snd (bootstrap_Start s)"] bootstrap_Start_inv [OF Cons.prems]
    show ?thesis by (simp add: case_prod_unfold)
  next
    case Close
    with Cons.IH [of "snd (bootstrap_Close w s)"] bootstrap_Close_inv [OF Cons.prems]
    show ?thesis by (simp add: case_prod_unfold)
  qed
qed

lemma expected_outcomes_length:
  "run_winds_down w \<noteq> None \<Longrightarrow> length (expected_outcomes w b cs) = length cs"
  by (induction w b cs rule: expected_outcomes.induct) auto

lemma expected_outcomes_nth:
  "i < length (expected_outcomes w b cs) \<Longrightarrow>
   i < length cs \<and>
   expected_outcomes w b cs ! i =
     (case cs ! i of
        Start \<Rightarrow> if b \<or> Start \<in> set (take i cs) then Panicked start_panic else Returned None
      | Close \<Rightarrow> if (b \<or> Start \<in> set (take i cs)) \<and> run_winds_down w = None
                 then Blocked else Returned None)"
proof (induction w b cs arbitrary: i rule: expected_outcomes.induct)
  case (1 w was_started)
  then show ?case by simp
next
  case (2 w was_started cs)
  then show ?case by (cases i) (auto split: call.splits)
next
  case (3 w was_started cs)
  then show ?case by (cases i) (auto split: call.splits if_splits)
qed

text \<open>
  C10, as the code has it. On a node made by \<open>NewBootstrapNode\<close>, in any sequence of
  calls of \<open>Start\<close> and \<open>Close\<close> made one after the other, the first \<open>Start\<close> returns
  nil and every later \<open>Start\<close> panics. \<open>Close\<close> never returns an error and never
  panics. Before any \<open>Start\<close> it returns nil at once. After a \<open>Start\<close> it waits for the
  goroutine running \<open>RunManagedBootstrapNode\<close>: it returns nil, any number of times,
  when that goroutine winds down after the cancellation, and it blocks when the goroutine
  does not (a \<open>bootstrapper.Close\<close>, a config change in progress or the config tracker
  that never returns). When the goroutine winds down every call of the sequence returns
  or panics as said.
\<close>

theorem bootstrap_start_once_close_any:
  assumes "NewBootstrapNode SanityCheckLocalConfig args = Inr b"
  shows "(run_winds_down w \<noteq> None \<longrightarrow> length (run_calls w (fresh_state b) cs) = length cs) \<and>
         (i < length (run_calls w (fresh_state b) cs) \<longrightarrow>
            i < length cs \<and> run_calls w (fresh_state b) cs ! i = expected_outcome w cs i)"
proof -
  from assms have b: "started b = 0" "subprocesses b = []" "cancel b = None"
    by (auto simp: NewBootstrapNode_def split: option.splits)
  then have "bootstrap_inv w (fresh_state b)"
    by (simp add: bootstrap_inv_def fresh_state_def)
  then have eq: "run_calls w (fresh_state b) cs = expected_outcomes w False cs"
    using run_calls_expected [of w "fresh_state b" cs] b by (simp add: fresh_state_def)
  show ?thesis
    using expected_outcomes_nth [of i w False cs] expected_outcomes_length [of w False cs]
    by (auto simp: eq expected_outcome_def start_panic_def split: call.splits)
qed

text \<open>
  Close, Start, Close, Start, Close, Start with a goroutine that winds down: all six
  calls return or panic, and only the second and third Start panic.
\<close>

theorem bootstrap_start_once_close_any_witness:
  "NewBootstrapNode (\<lambda>a. None) () = Inr ex_node \<and>
   run_winds_down ex_bootstrap_world \<noteq> None \<and>
   run_calls ex_bootstrap_world (fresh_state ex_node) [Close, Start, Close, Start, Close, Start] =
     [Returned None, Returned None, Returned None,
      Panicked ''can only start a BootstrapNode once'', Returned None,
      Panicked ''can only start a BootstrapNode once'']"
proof -
  let ?cs = "[Close, Start, Close, Start, Close, Start]"
  let ?run = "run_calls ex_bootstrap_world (fresh_state ex_node) ?cs"
  have n: "NewBootstrapNode (\<lambda>a. None) () = Inr ex_node"
    by (simp add: NewBootstrapNode_def ex_node_def)
  have d: "run_winds_down ex_bootstrap_world \<noteq> None"
    by (simp add: run_winds_down_def closeBootstrapper_def ex_bootstrap_world_def)
  have len: "length ?run = 6"
    using bootstrap_start_once_close_any [OF n, where w = ex_bootstrap_world and cs = ?cs and i = 0] d by simp
  have nth: "?run ! i = expected_outcome ex_bootstrap_world ?cs i" if "i < 6" for i
    using bootstrap_start_once_close_any [OF n, where w = ex_bootstrap_world and cs = ?cs and i = i] len that by simp
  have "?run = map (\<lambda>i. ?run ! i) [0..<6]"
    using len map_nth [of ?run] by simp
  also have "\<dots> = map (expected_outcome ex_bootstrap_world ?cs) [0..<6]"
    using nth by simp
  also have "\<dots> = [Returned None, Returned None, Returned None,
      Panicked ''can only start a BootstrapNode once'', Returned None,
      Panicked ''can only start a BootstrapNode once'']"
    using d by (simp add: expected_outcome_def upt_rec numeral_eq_Suc)
  finally show ?thesis using n d by simp
qed

text \<open>
  Start, then Close, with a bootstrapper whose \<open>Close\<close> never returns: the goroutine
  stays in \<open>closeBootstrapper\<close>, and \<open>BootstrapNode.Close\<close> blocks in
  \<open>b.subprocesses.Wait()\<close> instead of returning nil.
\<close>

theorem bootstrap_start_once_close_any_counterexample:
  "NewBootstrapNode (\<lambda>a. None) () = Inr ex_node \<and>
   run_calls ex_bootstrap_hangs (fresh_state ex_node) [Start, Close] = [Returned None, Blocked]"
  by (simp add: NewBootstrapNode_def ex_node_def fresh_state_def bootstrap_Start_def
        bootstrap_Close_def TryAcquire_def goroutine_returned_def run_winds_down_def
        closeBootstrapper_def ex_bootstrap_hangs_def ex_bootstrap_world_def Let_def)

end
